theory Spec2Isabelle
  imports Main "HOL-Library.Word"
begin

section \<open>Paths: the pathlib operations the launcher uses (POSIX flavour)\<close>

text \<open>
  \<^verbatim>\<open>run_server.py\<close> computes the target with
  \<^verbatim>\<open>Path(__file__).parent / "server" / "hello_mcp_server.py"\<close> and turns it into a
  string with \<^verbatim>\<open>str\<close> (directly for the command, through the f-string for the
  message). A pure path is its anchor (\<^verbatim>\<open>''\<close>, \<^verbatim>\<open>'/'\<close> or \<^verbatim>\<open>'//'\<close>; the drive
  is always empty on POSIX) and the list of its remaining components.
\<close>

record pure_path =
  anchor :: string
  tail :: "string list"

text \<open>\<^verbatim>\<open>str.split(sep)\<close>: the pieces between the separators, empty pieces included.\<close>

fun split_sep :: "char \<Rightarrow> string \<Rightarrow> string list" where
  "split_sep c [] = [[]]"
| "split_sep c (x # xs) =
     (if x = c then [] # split_sep c xs
      else (case split_sep c xs of
              w # ws \<Rightarrow> (x # w) # ws
            | [] \<Rightarrow> [[x]]))"

text \<open>
  \<^verbatim>\<open>posixpath.splitroot\<close> without the drive: no leading slash is a relative path;
  exactly two leading slashes are kept as the root \<^verbatim>\<open>'//'\<close>; one, or three and more,
  give the root \<^verbatim>\<open>'/'\<close>. The slices \<^verbatim>\<open>p[:1]\<close>, \<^verbatim>\<open>p[1:2]\<close>, \<^verbatim>\<open>p[2:3]\<close> are
  \<open>take 1 p\<close>, \<open>take 1 (drop 1 p)\<close>, \<open>take 1 (drop 2 p)\<close>.
\<close>

definition splitroot :: "string \<Rightarrow> string \<times> string" where
  "splitroot p =
     (if take 1 p \<noteq> ''/'' then ('''', p)
      else if take 1 (drop 1 p) \<noteq> ''/'' then (''/'', drop 1 p)
      else if take 1 (drop 2 p) = ''/'' then (''/'', drop 1 p)
      else (take 2 p, drop 2 p))"

text \<open>\<^verbatim>\<open>Path(s)\<close>: split off the root, split the rest at \<^verbatim>\<open>/\<close>, drop empty and
  \<^verbatim>\<open>.\<close> components.\<close>

definition Path :: "string \<Rightarrow> pure_path" where
  "Path s =
     (if s = [] then \<lparr>anchor = [], tail = []\<rparr>
      else \<lparr>anchor = fst (splitroot s),
             tail = filter (\<lambda>x. x \<noteq> [] \<and> x \<noteq> ''.'') (split_sep CHR ''/'' (snd (splitroot s)))\<rparr>)"

text \<open>\<^verbatim>\<open>p.parent\<close>: the path without its last component; a path with no component is
  its own parent.\<close>

definition parent :: "pure_path \<Rightarrow> pure_path" where
  "parent p = (if tail p = [] then p else p\<lparr>tail := butlast (tail p)\<rparr>)"

text \<open>\<^verbatim>\<open>p / seg\<close>: an absolute segment replaces the path, a relative one appends its
  components.\<close>

definition joinpath :: "pure_path \<Rightarrow> string \<Rightarrow> pure_path" where
  "joinpath p seg =
     (if anchor (Path seg) \<noteq> [] then Path seg
      else \<lparr>anchor = anchor p, tail = tail p @ tail (Path seg)\<rparr>)"

text \<open>\<^verbatim>\<open>'/'.join(parts)\<close>.\<close>

fun join_sep :: "string list \<Rightarrow> string" where
  "join_sep [] = []"
| "join_sep [x] = x"
| "join_sep (x # y # ys) = x @ ''/'' @ join_sep (y # ys)"

text \<open>\<^verbatim>\<open>str(p)\<close>: the anchor followed by the joined components; the empty path is
  \<^verbatim>\<open>'.'\<close>.\<close>

definition str_path :: "pure_path \<Rightarrow> string" where
  "str_path p =
     (if anchor p \<noteq> [] then anchor p @ join_sep (tail p)
      else if tail p = [] then ''.''
      else join_sep (tail p))"

section \<open>The launcher: \<^verbatim>\<open>run_server.py\<close>\<close>

text \<open>
  How a child process ends on POSIX: it exits with a status of eight bits, or a signal
  kills it. A signal number is at least 1 and fits the seven bits the wait status has
  for it. \<^verbatim>\<open>subprocess\<close> reports the first as the return code \<^verbatim>\<open>status\<close> and the
  second as the negative return code \<^verbatim>\<open>-signal\<close>.
\<close>

typedef signal = "{1..127::nat}"
  morphisms signum Signal
  by (rule exI [of _ 1]) simp

datatype child_end = ExitStatus "8 word" | KilledBy signal

fun returncode :: "child_end \<Rightarrow> int" where
  "returncode (ExitStatus w) = uint w"
| "returncode (KilledBy s) = - int (signum s)"

text \<open>
  What happens when \<^verbatim>\<open>subprocess.run\<close> spawns the command and waits for it: the child
  ends; or the wait is interrupted from the keyboard (the argument says how the child
  had ended if it already had at that moment, \<open>None\<close> if it was still running); or
  spawning or waiting raises some other exception, such as an \<^verbatim>\<open>OSError\<close> (the
  argument is its text).
\<close>

datatype child_event = Exited child_end | Interrupted "child_end option" | Failed string

text \<open>
  Everything the launcher reads from outside: \<^verbatim>\<open>sys.executable\<close>, \<^verbatim>\<open>sys.argv\<close>,
  \<^verbatim>\<open>__file__\<close> (the field \<open>script_file\<close>), the file system as \<^verbatim>\<open>Path.exists\<close>
  answers for a path string, the behaviour of a spawned command, and \<^verbatim>\<open>str\<close> of a
  \<^verbatim>\<open>CalledProcessError\<close> with a given return code and command (library text, taken
  as given).
  \<^verbatim>\<open>Path.exists\<close> is taken to answer True or False and \<^verbatim>\<open>print\<close> to succeed.
\<close>

record env =
  executable :: string
  argv :: "string list"
  script_file :: string
  path_exists :: "string \<Rightarrow> bool"
  child :: "string list \<Rightarrow> child_event"
  error_text :: "int \<Rightarrow> string list \<Rightarrow> string"

datatype exn = CalledProcessError int "string list" | KeyboardInterrupt | OtherError string

text \<open>\<^verbatim>\<open>subprocess.run(cmd, check=check)\<close>: with \<^verbatim>\<open>check\<close> a non-zero return code is
  raised as \<^verbatim>\<open>CalledProcessError(returncode, cmd)\<close>.\<close>

definition subprocess_run :: "env \<Rightarrow> string list \<Rightarrow> bool \<Rightarrow> exn + int" where
  "subprocess_run e c check =
     (case child e c of
        Exited r \<Rightarrow>
          if check \<and> returncode r \<noteq> 0 then Inl (CalledProcessError (returncode r) c)
          else Inr (returncode r)
      | Interrupted st \<Rightarrow> Inl KeyboardInterrupt
      | Failed err \<Rightarrow> Inl (OtherError err))"

text \<open>
  How \<^verbatim>\<open>main\<close> ends: it returns, it calls \<^verbatim>\<open>sys.exit(n)\<close>, or an exception it does not
  catch leaves it. Its result also records the lines it printed and the commands it
  passed to \<^verbatim>\<open>subprocess.run\<close>.
\<close>

datatype ending = Returned | SystemExit int | Unhandled string

record result =
  printed :: "string list"
  run_calls :: "string list list"
  finish :: ending

definition server_script :: "env \<Rightarrow> pure_path" where
  "server_script e =
     joinpath (joinpath (parent (Path (script_file e))) ''server'') ''hello_mcp_server.py''"

definition cmd :: "env \<Rightarrow> string list" where
  "cmd e = [executable e, str_path (server_script e)] @ drop 1 (argv e)"

definition main :: "env \<Rightarrow> result" where
  "main e =
     (if \<not> path_exists e (str_path (server_script e)) then
        \<lparr>printed = [''Error: Server script not found at '' @ str_path (server_script e)],
         run_calls = [],
         finish = SystemExit 1\<rparr>
      else
        (case subprocess_run e (cmd e) True of
           Inr rc \<Rightarrow> \<lparr>printed = [], run_calls = [cmd e], finish = Returned\<rparr>
         | Inl (CalledProcessError rc c) \<Rightarrow>
             \<lparr>printed = [''Error running server: '' @ error_text e rc c],
              run_calls = [cmd e],
              finish = SystemExit rc\<rparr>
         | Inl KeyboardInterrupt \<Rightarrow>
             \<lparr>printed = [CHR 0x0A # ''Server stopped by user''],
              run_calls = [cmd e],
              finish = SystemExit 0\<rparr>
         | Inl (OtherError err) \<Rightarrow>
             \<lparr>printed = [], run_calls = [cmd e], finish = Unhandled err\<rparr>))"

text \<open>
  The script's last lines call \<^verbatim>\<open>main()\<close> and nothing else, so the process ends as
  \<^verbatim>\<open>main\<close> does: status 0 when it returns, the argument of \<^verbatim>\<open>sys.exit\<close>, and for an
  exception nobody caught the interpreter writes its traceback and ends with status 1.
  What the process emits is the printed lines, then that traceback if there is one.
  The status of a process has eight bits on POSIX: of the number given to
  \<^verbatim>\<open>sys.exit\<close> the parent sees the low eight bits, so \<^verbatim>\<open>sys.exit(-15)\<close> ends the
  process with status 241.
\<close>

fun exit_status :: "ending \<Rightarrow> int" where
  "exit_status Returned = 0"
| "exit_status (SystemExit n) = n mod 256"
| "exit_status (Unhandled err) = 1"



datatype emission = Print string | Traceback string

fun traceback :: "ending \<Rightarrow> emission list" where
  "traceback (Unhandled err) = [Traceback err]"
| "traceback Returned = []"
| "traceback (SystemExit n) = []"

definition emitted :: "result \<Rightarrow> emission list" where
  "emitted r = map Print (printed r) @ traceback (finish r)"

section \<open>The package initializer: \<^verbatim>\<open>server/__init__.py\<close>\<close>

text \<open>
  The module body is three statements after the docstring: the import, the binding of
  \<^verbatim>\<open>__all__\<close> and the binding of \<^verbatim>\<open>__version__\<close>. Running it yields the names the
  run has bound so far in the package's namespace and the exception that stopped it,
  if any. (The attributes every module has before its body runs, such as
  \<^verbatim>\<open>__name__\<close> and \<^verbatim>\<open>__path__\<close>, are left out.) The sibling modules that can be
  imported are given as a map from module name to that module's names.
\<close>

datatype py_value = Str string | StrList "string list" | ClassObj string | ModuleObj string

datatype import_error = ModuleNotFoundError string | ImportError string string

type_synonym namespace = "string \<rightharpoonup> py_value"

text \<open>\<^verbatim>\<open>from .m import n\<close>, the lookup: the module must be there and must bind the
  name.\<close>

definition import_from :: "(string \<rightharpoonup> namespace) \<Rightarrow> string \<Rightarrow> string \<Rightarrow> import_error + py_value" where
  "import_from ms m n =
     (case ms m of
        None \<Rightarrow> Inl (ModuleNotFoundError m)
      | Some ns \<Rightarrow> (case ns n of None \<Rightarrow> Inl (ImportError n m) | Some v \<Rightarrow> Inr v))"

definition server_doc :: string where
  "server_doc =
     CHR 0x0A # ''FACT Memory FastMCP Server Package'' @ [CHR 0x0A, CHR 0x0A] @
     ''This package contains the FastMCP server implementation for the FACT Memory System.'' @
     [CHR 0x0A]"

record module_run =
  bound :: namespace
  raised :: "import_error option"

text \<open>
  Importing a submodule binds the submodule's own name in the package, whether or not
  the name asked from it is found there: once \<^verbatim>\<open>hello_mcp_server\<close> is loaded the
  package has the attribute \<^verbatim>\<open>hello_mcp_server\<close>.
\<close>

definition submodule_bound :: "(string \<rightharpoonup> namespace) \<Rightarrow> string \<Rightarrow> namespace \<Rightarrow> namespace" where
  "submodule_bound ms m ns = (case ms m of None \<Rightarrow> ns | Some _ \<Rightarrow> ns(m \<mapsto> ModuleObj m))"

definition server_init :: "(string \<rightharpoonup> namespace) \<Rightarrow> module_run" where
  "server_init ms =
     (case import_from ms ''hello_mcp_server'' ''HelloWorldMCPServer'' of
        Inl err \<Rightarrow>
          \<lparr>bound = submodule_bound ms ''hello_mcp_server'' [''__doc__'' \<mapsto> Str server_doc],
           raised = Some err\<rparr>
      | Inr v \<Rightarrow>
          \<lparr>bound = (submodule_bound ms ''hello_mcp_server'' [''__doc__'' \<mapsto> Str server_doc])
                     (''HelloWorldMCPServer'' \<mapsto> v,
                      ''__all__'' \<mapsto> StrList [''HelloWorldMCPServer''],
                      ''__version__'' \<mapsto> Str ''1.0.0''),
           raised = None\<rparr>)"

section \<open>Concrete inputs\<close>

text \<open>The signal \<^verbatim>\<open>SIGTERM\<close>, number 15.\<close>

definition SIGTERM :: signal where
  "SIGTERM = Signal 15"

text \<open>
  \<^verbatim>\<open>str\<close> of the \<^verbatim>\<open>CalledProcessError\<close> for the command of the runs below and the two
  return codes they fail with, 3 and -15, character for character as the library
  formats it (\<open>CHR 0x27\<close> is the single quote); no other return code occurs below.
\<close>

definition demo_error_text :: "int \<Rightarrow> string" where
  "demo_error_text rc =
     ''Command '' @ [CHR 0x27] @ ''['' @
       [CHR 0x27] @ ''/usr/bin/python3'' @ [CHR 0x27] @ '', '' @
       [CHR 0x27] @ ''/opt/fact/src/server/hello_mcp_server.py'' @ [CHR 0x27] @ '', '' @
       [CHR 0x27] @ ''--port'' @ [CHR 0x27] @ '', '' @
       [CHR 0x27] @ ''8080'' @ [CHR 0x27] @ '']'' @ [CHR 0x27] @
     (if rc = 3 then '' returned non-zero exit status 3.''
      else if rc = - 15 then '' died with <Signals.SIGTERM: 15>.''
      else [])"

text \<open>
  An installed launcher at \<^verbatim>\<open>/opt/fact/src/run_server.py\<close>, started by that path with
  the arguments \<^verbatim>\<open>--port 8080\<close>. The first parameter says whether the target script
  is on disk, the second what happens to the child once it is spawned with the
  expected command (any other command is not found).
\<close>

definition demo_env :: "bool \<Rightarrow> child_event \<Rightarrow> env" where
  "demo_env present ev =
     \<lparr>executable = ''/usr/bin/python3'',
      argv = [''/opt/fact/src/run_server.py'', ''--port'', ''8080''],
      script_file = ''/opt/fact/src/run_server.py'',
      path_exists = (\<lambda>p. present \<and> p = ''/opt/fact/src/server/hello_mcp_server.py''),
      child = (\<lambda>c. if c = [''/usr/bin/python3'', ''/opt/fact/src/server/hello_mcp_server.py'', ''--port'', ''8080'']
                     then ev else Failed ''FileNotFoundError''),
      error_text = (\<lambda>rc c. demo_error_text rc)\<rparr>"

text \<open>A package directory in which \<^verbatim>\<open>hello_mcp_server\<close> is present and binds the class.\<close>

definition demo_modules :: "string \<rightharpoonup> namespace" where
  "demo_modules = [''hello_mcp_server'' \<mapsto> [''HelloWorldMCPServer'' \<mapsto> ClassObj ''HelloWorldMCPServer'']]"

section \<open>Facts about the model\<close>

subsection \<open>The fixed path segments\<close>

lemma Path_server: "Path ''server'' = \<lparr>anchor = [], tail = [''server'']\<rparr>"
  by (simp add: Path_def splitroot_def)

lemma Path_hello: "Path ''hello_mcp_server.py'' = \<lparr>anchor = [], tail = [''hello_mcp_server.py'']\<rparr>"
  by (simp add: Path_def splitroot_def)


lemma join_sep_snoc:
  "join_sep (xs @ [y]) = (if xs = [] then y else join_sep xs @ ''/'' @ y)"
  by (induction xs rule: join_sep.induct) simp_all

lemma join_sep_fixed:
  "\<exists>pre. join_sep (xs @ [''server'', ''hello_mcp_server.py'']) = pre @ ''server/hello_mcp_server.py''"
proof -
  have "join_sep (xs @ [''server'', ''hello_mcp_server.py'']) =
        join_sep ((xs @ [''server'']) @ [''hello_mcp_server.py''])"
    by simp
  also have "\<dots> = join_sep (xs @ [''server'']) @ ''/'' @ ''hello_mcp_server.py''"
    by (simp only: join_sep_snoc) simp
  also have "\<dots> = (if xs = [] then [] else join_sep xs @ ''/'') @ ''server/hello_mcp_server.py''"
    by (simp add: join_sep_snoc)
  finally show ?thesis by blast
qed

lemma server_script_parts:
  "server_script e =
     \<lparr>anchor = anchor (parent (Path (script_file e))),
      tail = tail (parent (Path (script_file e))) @ [''server'', ''hello_mcp_server.py'']\<rparr>"
  by (simp add: server_script_def joinpath_def Path_server Path_hello)

subsection \<open>Return codes\<close>

lemma signum_range: "1 \<le> signum s \<and> signum s \<le> 127"
  using signum [of s] by simp

lemma signum_SIGTERM: "signum SIGTERM = 15"
  by (simp add: SIGTERM_def Signal_inverse)

lemma returncode_zero_iff: "returncode r = 0 \<longleftrightarrow> r = ExitStatus 0"
proof (cases r)
  case (ExitStatus w)
  then show ?thesis by (simp add: uint_0_iff)
next
  case (KilledBy s)
  with signum_range [of s] show ?thesis by simp
qed

lemma uint_byte_mod: "uint (w :: 8 word) mod 256 = uint w"
proof -
  have "0 \<le> uint w" by simp
  moreover have "uint w < 256" using uint_bounded [of w] by simp
  ultimately show ?thesis by simp
qed

lemma returncode_mod:
  "returncode r mod 256 = (case r of ExitStatus w \<Rightarrow> uint w | KilledBy s \<Rightarrow> 256 - int (signum s))"
proof (cases r)
  case (ExitStatus w)
  then show ?thesis by (simp add: uint_byte_mod)
next
  case (KilledBy s)
  have "(- int (signum s)) mod 256 = 256 - int (signum s)"
    using signum_range [of s] by (simp add: zmod_zminus1_eq_if)
  with KilledBy show ?thesis by simp
qed

lemma returncode_folded: "returncode r \<noteq> 0 \<Longrightarrow> returncode r mod 256 \<noteq> 0"
proof (cases r)
  case (ExitStatus w)
  assume "returncode r \<noteq> 0"
  with ExitStatus show ?thesis by (simp add: uint_byte_mod)
next
  case (KilledBy s)
  with returncode_mod [of r] have "returncode r mod 256 = 256 - int (signum s)"
    by simp
  with signum_range [of s] show ?thesis by simp
qed

subsection \<open>One equation for each way through \<^verbatim>\<open>main\<close>\<close>

lemma main_missing:
  "\<not> path_exists e (str_path (server_script e)) \<Longrightarrow>
   main e = \<lparr>printed = [''Error: Server script not found at '' @ str_path (server_script e)],
             run_calls = [], finish = SystemExit 1\<rparr>"
  by (simp add: main_def)

lemma main_exited_zero:
  "path_exists e (str_path (server_script e)) \<Longrightarrow> child e (cmd e) = Exited (ExitStatus 0) \<Longrightarrow>
   main e = \<lparr>printed = [], run_calls = [cmd e], finish = Returned\<rparr>"
  by (simp add: main_def subprocess_run_def)

lemma main_exited_nonzero:
  "path_exists e (str_path (server_script e)) \<Longrightarrow> child e (cmd e) = Exited r \<Longrightarrow>
   returncode r \<noteq> 0 \<Longrightarrow>
   main e = \<lparr>printed = [''Error running server: '' @ error_text e (returncode r) (cmd e)],
             run_calls = [cmd e], finish = SystemExit (returncode r)\<rparr>"
  by (simp add: main_def subprocess_run_def)

lemma main_interrupted:
  "path_exists e (str_path (server_script e)) \<Longrightarrow> child e (cmd e) = Interrupted st \<Longrightarrow>
   main e = \<lparr>printed = [CHR 0x0A # ''Server stopped by user''],
             run_calls = [cmd e], finish = SystemExit 0\<rparr>"
  by (simp add: main_def subprocess_run_def)

lemma main_failed:
  "path_exists e (str_path (server_script e)) \<Longrightarrow> child e (cmd e) = Failed err \<Longrightarrow>
   main e = \<lparr>printed = [], run_calls = [cmd e], finish = Unhandled err\<rparr>"
  by (simp add: main_def subprocess_run_def)

lemma main_cases:
  "(\<not> path_exists e (str_path (server_script e))) \<or>
   (path_exists e (str_path (server_script e)) \<and> child e (cmd e) = Exited (ExitStatus 0)) \<or>
   (\<exists>r. returncode r \<noteq> 0 \<and> path_exists e (str_path (server_script e)) \<and>
        child e (cmd e) = Exited r) \<or>
   (\<exists>st. path_exists e (str_path (server_script e)) \<and> child e (cmd e) = Interrupted st) \<or>
   (\<exists>err. path_exists e (str_path (server_script e)) \<and> child e (cmd e) = Failed err)"
  by (cases "child e (cmd e)") (auto simp: returncode_zero_iff)

subsection \<open>How the interpreter names the script\<close>



subsection \<open>The concrete environment, evaluated\<close>

lemma demo_script:
  "str_path (server_script (demo_env present ev)) = ''/opt/fact/src/server/hello_mcp_server.py''"
  by (simp add: demo_env_def server_script_parts Path_def splitroot_def parent_def str_path_def)

lemma demo_cmd:
  "cmd (demo_env present ev) =
     [''/usr/bin/python3'', ''/opt/fact/src/server/hello_mcp_server.py'', ''--port'', ''8080'']"
  by (simp add: cmd_def demo_script) (simp add: demo_env_def)

lemma demo_exists:
  "path_exists (demo_env present ev) ''/opt/fact/src/server/hello_mcp_server.py'' = present"
  by (simp add: demo_env_def)

lemma demo_child:
  "child (demo_env present ev)
     [''/usr/bin/python3'', ''/opt/fact/src/server/hello_mcp_server.py'', ''--port'', ''8080''] = ev"
  by (simp add: demo_env_def)

lemma demo_fields:
  "executable (demo_env present ev) = ''/usr/bin/python3''"
  "argv (demo_env present ev) = [''/opt/fact/src/run_server.py'', ''--port'', ''8080'']"
  "script_file (demo_env present ev) = ''/opt/fact/src/run_server.py''"
  "error_text (demo_env present ev) n c = demo_error_text n"
  by (simp_all add: demo_env_def)

lemmas demo_simps = demo_script demo_cmd demo_exists demo_child demo_fields


subsection \<open>The initializer, run\<close>

lemma server_init_ok:
  "ms ''hello_mcp_server'' = Some m \<Longrightarrow> m ''HelloWorldMCPServer'' = Some v \<Longrightarrow>
   server_init ms =
     \<lparr>bound = [''__doc__'' \<mapsto> Str server_doc,
               ''hello_mcp_server'' \<mapsto> ModuleObj ''hello_mcp_server'',
               ''HelloWorldMCPServer'' \<mapsto> v,
               ''__all__'' \<mapsto> StrList [''HelloWorldMCPServer''],
               ''__version__'' \<mapsto> Str ''1.0.0''],
      raised = None\<rparr>"
  by (simp add: server_init_def import_from_def submodule_bound_def)

section \<open>The launcher's properties\<close>

text \<open>
  C1. For every argument vector \<open>A\<close> (the launcher's \<^verbatim>\<open>sys.argv\<close> is its own name
  followed by \<open>A\<close>), the command the launcher builds is the interpreter, then the
  resolved target path, then \<open>A\<close> unchanged and in order; and that command is the one
  and only command passed to \<^verbatim>\<open>subprocess.run\<close> when the target exists.
\<close>

theorem C1_command:
  "argv e = prog # A \<Longrightarrow>
   cmd e = executable e # str_path (server_script e) # A \<and>
   run_calls (main e) =
     (if path_exists e (str_path (server_script e))
      then [executable e # str_path (server_script e) # A] else [])"
  by (cases "child e (cmd e)")
     (auto simp: main_def subprocess_run_def cmd_def split: sum.splits exn.splits)

theorem C1_command_witness:
  "run_calls (main (demo_env True (Exited (ExitStatus 0)))) =
     [[''/usr/bin/python3'', ''/opt/fact/src/server/hello_mcp_server.py'', ''--port'', ''8080'']]"
proof -
  have "argv (demo_env True (Exited (ExitStatus 0))) = ''/opt/fact/src/run_server.py'' # [''--port'', ''8080'']"
    by (simp add: demo_simps)
  from C1_command [OF this] show ?thesis
    by (simp add: demo_simps)
qed

text \<open>
  C2. When the target script does not exist at the resolved path, the launcher exits
  with status 1, prints one message that ends with the resolved path, and spawns
  nothing.
\<close>

theorem C2_missing_script:
  "\<not> path_exists e (str_path (server_script e)) \<Longrightarrow>
   finish (main e) = SystemExit 1 \<and>
   exit_status (finish (main e)) = 1 \<and>
   printed (main e) = [''Error: Server script not found at '' @ str_path (server_script e)] \<and>
   run_calls (main e) = []"
  by (simp add: main_missing)

theorem C2_missing_script_witness:
  "exit_status (finish (main (demo_env False (Exited (ExitStatus 0))))) = 1 \<and>
   printed (main (demo_env False (Exited (ExitStatus 0)))) =
     [''Error: Server script not found at /opt/fact/src/server/hello_mcp_server.py''] \<and>
   run_calls (main (demo_env False (Exited (ExitStatus 0)))) = []"
proof -
  have "\<not> path_exists (demo_env False (Exited (ExitStatus 0)))
            (str_path (server_script (demo_env False (Exited (ExitStatus 0)))))"
    by (simp add: demo_simps)
  from C2_missing_script [OF this] show ?thesis
    by (simp add: demo_simps)
qed

text \<open>
  C3, as amended. When the child ends with a return code other than 0, the launcher
  prints \<^verbatim>\<open>Error running server:\<close> followed by the text of the error and calls
  \<^verbatim>\<open>sys.exit\<close> with that return code. Its own status is then never 0. It is exactly
  the child's status \<open>N\<close> when the child exited with a status \<open>N\<close> from 1 to 255. When
  a signal \<open>s\<close> killed the child, the return code is \<open>-s\<close> and the launcher's status
  is \<open>256 - s\<close>, which is not the child's.
\<close>

theorem C3_child_failure:
  "path_exists e (str_path (server_script e)) \<Longrightarrow> child e (cmd e) = Exited r \<Longrightarrow>
   returncode r \<noteq> 0 \<Longrightarrow>
   printed (main e) = [''Error running server: '' @ error_text e (returncode r) (cmd e)] \<and>
   finish (main e) = SystemExit (returncode r) \<and>
   exit_status (finish (main e)) \<noteq> 0 \<and>
   exit_status (finish (main e)) =
     (case r of ExitStatus w \<Rightarrow> uint w | KilledBy s \<Rightarrow> 256 - int (signum s))"
proof -
  assume run: "path_exists e (str_path (server_script e))" "child e (cmd e) = Exited r"
    and fails: "returncode r \<noteq> 0"
  from run fails have m:
    "main e = \<lparr>printed = [''Error running server: '' @ error_text e (returncode r) (cmd e)],
               run_calls = [cmd e], finish = SystemExit (returncode r)\<rparr>"
    by (rule main_exited_nonzero)
  then have status: "exit_status (finish (main e)) = returncode r mod 256"
    by simp
  from fails have "returncode r mod 256 \<noteq> 0"
    by (rule returncode_folded)
  with m status show ?thesis
    by (simp add: returncode_mod)
qed

theorem C3_child_failure_witness:
  "exit_status (finish (main (demo_env True (Exited (ExitStatus 3))))) = 3 \<and>
   printed (main (demo_env True (Exited (ExitStatus 3)))) =
     [''Error running server: '' @ demo_error_text 3] \<and>
   exit_status (finish (main (demo_env True (Exited (KilledBy SIGTERM))))) = 241 \<and>
   printed (main (demo_env True (Exited (KilledBy SIGTERM)))) =
     [''Error running server: '' @ demo_error_text (- 15)]"
proof -
  have p: "path_exists (demo_env True ev) (str_path (server_script (demo_env True ev)))" for ev
    by (simp add: demo_simps)
  have c: "child (demo_env True (Exited r)) (cmd (demo_env True (Exited r))) = Exited r" for r
    by (simp add: demo_simps)
  have n3: "returncode (ExitStatus 3) \<noteq> 0" by simp
  have nk: "returncode (KilledBy SIGTERM) \<noteq> 0" by (simp add: signum_SIGTERM)
  from C3_child_failure [OF p c n3] C3_child_failure [OF p c nk] show ?thesis
    by (simp add: demo_simps signum_SIGTERM)
qed

text \<open>
  The claim as first stated (the launcher exits with exactly the status \<open>N\<close> the
  child terminated with) fails for a killed child: \<^verbatim>\<open>SIGTERM\<close> gives the return code
  -15, and the launcher's status is 241.
\<close>

theorem C3_killed_child_status_differs:
  "returncode (KilledBy SIGTERM) = - 15 \<and>
   finish (main (demo_env True (Exited (KilledBy SIGTERM)))) = SystemExit (- 15) \<and>
   exit_status (finish (main (demo_env True (Exited (KilledBy SIGTERM))))) = 241 \<and>
   exit_status (finish (main (demo_env True (Exited (KilledBy SIGTERM))))) \<noteq>
     returncode (KilledBy SIGTERM)"
  by (simp add: main_exited_nonzero demo_simps signum_SIGTERM)

text \<open>
  C4. When the wait for the child is interrupted from the keyboard, the launcher
  prints the \<^verbatim>\<open>Server stopped by user\<close> line and exits with status 0, whatever the
  state \<open>st\<close> of the child at that moment.
\<close>

theorem C4_interrupt:
  "path_exists e (str_path (server_script e)) \<Longrightarrow> child e (cmd e) = Interrupted st \<Longrightarrow>
   finish (main e) = SystemExit 0 \<and>
   exit_status (finish (main e)) = 0 \<and>
   printed (main e) = [CHR 0x0A # ''Server stopped by user'']"
  by (simp add: main_interrupted)

theorem C4_interrupt_witness:
  "exit_status (finish (main (demo_env True (Interrupted None)))) = 0 \<and>
   exit_status (finish (main (demo_env True (Interrupted (Some (ExitStatus 7)))))) = 0 \<and>
   printed (main (demo_env True (Interrupted (Some (ExitStatus 7))))) = [CHR 0x0A # ''Server stopped by user'']"
proof -
  have p: "path_exists (demo_env True ev) (str_path (server_script (demo_env True ev)))" for ev
    by (simp add: demo_simps)
  have c: "child (demo_env True (Interrupted st)) (cmd (demo_env True (Interrupted st))) = Interrupted st" for st
    by (simp add: demo_simps)
  from C4_interrupt [OF p c, of None] C4_interrupt [OF p c, of "Some (ExitStatus 7)"] show ?thesis
    by simp
qed

text \<open>
  C5. When the target script exists and the child terminates with return code 0, the
  launcher returns normally, so the process ends with status 0, and nothing at all
  is emitted.
\<close>

theorem C5_child_success:
  "path_exists e (str_path (server_script e)) \<Longrightarrow> child e (cmd e) = Exited (ExitStatus 0) \<Longrightarrow>
   finish (main e) = Returned \<and>
   exit_status (finish (main e)) = 0 \<and>
   emitted (main e) = []"
  by (simp add: main_exited_zero emitted_def)

theorem C5_child_success_witness:
  "exit_status (finish (main (demo_env True (Exited (ExitStatus 0))))) = 0 \<and>
   emitted (main (demo_env True (Exited (ExitStatus 0)))) = []"
proof -
  have p: "path_exists (demo_env True (Exited (ExitStatus 0))) (str_path (server_script (demo_env True (Exited (ExitStatus 0)))))"
    by (simp add: demo_simps)
  have c: "child (demo_env True (Exited (ExitStatus 0))) (cmd (demo_env True (Exited (ExitStatus 0)))) = Exited (ExitStatus 0)"
    by (simp add: demo_simps)
  from C5_child_success [OF p c] show ?thesis
    by simp
qed

text \<open>
  C6. The only way to end by returning normally is the child's success. On every other
  way out something is emitted (a line printed by the launcher, or the traceback of
  the exception that left it), and the status is non-zero except on exactly one path,
  the keyboard interrupt during the wait, where it is 0. No path calls
  \<^verbatim>\<open>subprocess.run\<close> more than once, so nothing is retried.
\<close>

theorem C6_every_exit_path:
  "(finish (main e) = Returned \<longleftrightarrow>
      path_exists e (str_path (server_script e)) \<and> child e (cmd e) = Exited (ExitStatus 0)) \<and>
   (finish (main e) \<noteq> Returned \<longrightarrow>
      emitted (main e) \<noteq> [] \<and>
      (exit_status (finish (main e)) = 0 \<longleftrightarrow>
         path_exists e (str_path (server_script e)) \<and> (\<exists>st. child e (cmd e) = Interrupted st))) \<and>
   length (run_calls (main e)) \<le> 1"
  using main_cases [of e]
  by (elim disjE exE conjE)
     (simp_all add: main_missing main_exited_zero main_exited_nonzero main_interrupted
        main_failed emitted_def returncode_zero_iff returncode_folded)

theorem C6_every_exit_path_witness:
  "emitted (main (demo_env False (Exited (ExitStatus 0)))) \<noteq> [] \<and>
   exit_status (finish (main (demo_env False (Exited (ExitStatus 0))))) \<noteq> 0 \<and>
   emitted (main (demo_env True (Exited (ExitStatus 3)))) \<noteq> [] \<and>
   exit_status (finish (main (demo_env True (Exited (ExitStatus 3))))) \<noteq> 0 \<and>
   emitted (main (demo_env True (Failed ''PermissionError''))) \<noteq> [] \<and>
   exit_status (finish (main (demo_env True (Failed ''PermissionError'')))) \<noteq> 0 \<and>
   emitted (main (demo_env True (Interrupted None))) \<noteq> [] \<and>
   exit_status (finish (main (demo_env True (Interrupted None)))) = 0"
  using C6_every_exit_path [of "demo_env False (Exited (ExitStatus 0))"]
    C6_every_exit_path [of "demo_env True (Exited (ExitStatus 3))"]
    C6_every_exit_path [of "demo_env True (Failed ''PermissionError'')"]
    C6_every_exit_path [of "demo_env True (Interrupted None)"]
  by (simp add: demo_simps)




text \<open>
  C9. Only a non-zero return code and a keyboard interrupt are caught around
  \<^verbatim>\<open>subprocess.run\<close>. Any other exception raised while spawning or waiting leaves
  \<^verbatim>\<open>main\<close> uncaught: the launcher prints neither of its messages, the interpreter
  writes the traceback, and the status is 1, not a code of the child.
\<close>

theorem C9_other_exception_unhandled:
  "path_exists e (str_path (server_script e)) \<Longrightarrow> child e (cmd e) = Failed err \<Longrightarrow>
   finish (main e) = Unhandled err \<and>
   printed (main e) = [] \<and>
   emitted (main e) = [Traceback err] \<and>
   exit_status (finish (main e)) = 1"
  by (simp add: main_failed emitted_def)

theorem C9_other_exception_unhandled_witness:
  "finish (main (demo_env True (Failed ''PermissionError''))) = Unhandled ''PermissionError'' \<and>
   printed (main (demo_env True (Failed ''PermissionError''))) = [] \<and>
   exit_status (finish (main (demo_env True (Failed ''PermissionError'')))) = 1"
proof -
  have p: "path_exists (demo_env True (Failed ''PermissionError''))
             (str_path (server_script (demo_env True (Failed ''PermissionError''))))"
    by (simp add: demo_simps)
  have c: "child (demo_env True (Failed ''PermissionError''))
             (cmd (demo_env True (Failed ''PermissionError''))) = Failed ''PermissionError''"
    by (simp add: demo_simps)
  from C9_other_exception_unhandled [OF p c] show ?thesis
    by simp
qed

section \<open>The package initializer's properties\<close>

text \<open>
  C8. When the import of the sibling module succeeds, the initializer binds
  \<^verbatim>\<open>HelloWorldMCPServer\<close> to the class it imported, \<^verbatim>\<open>__all__\<close> to the list holding
  that one name and nothing else, and \<^verbatim>\<open>__version__\<close> to \<^verbatim>\<open>"1.0.0"\<close>. Besides these
  three the run binds the docstring and, through the import, the submodule's own name
  \<^verbatim>\<open>hello_mcp_server\<close>; it binds no other name.
\<close>

theorem C8_initializer_exports:
  "ms ''hello_mcp_server'' = Some m \<Longrightarrow> m ''HelloWorldMCPServer'' = Some v \<Longrightarrow>
   raised (server_init ms) = None \<and>
   bound (server_init ms) ''HelloWorldMCPServer'' = Some v \<and>
   bound (server_init ms) ''__all__'' = Some (StrList [''HelloWorldMCPServer'']) \<and>
   bound (server_init ms) ''__version__'' = Some (Str ''1.0.0'') \<and>
   bound (server_init ms) ''hello_mcp_server'' = Some (ModuleObj ''hello_mcp_server'') \<and>
   dom (bound (server_init ms)) =
     {''__doc__'', ''hello_mcp_server'', ''HelloWorldMCPServer'', ''__all__'', ''__version__''}"
  by (auto simp: server_init_ok)

theorem C8_initializer_exports_witness:
  "bound (server_init demo_modules) ''HelloWorldMCPServer'' = Some (ClassObj ''HelloWorldMCPServer'') \<and>
   bound (server_init demo_modules) ''__all__'' = Some (StrList [''HelloWorldMCPServer'']) \<and>
   bound (server_init demo_modules) ''__version__'' = Some (Str ''1.0.0'') \<and>
   bound (server_init demo_modules) ''hello_mcp_server'' = Some (ModuleObj ''hello_mcp_server'')"
proof -
  have m: "demo_modules ''hello_mcp_server'' = Some [''HelloWorldMCPServer'' \<mapsto> ClassObj ''HelloWorldMCPServer'']"
    by (simp add: demo_modules_def)
  have v: "[''HelloWorldMCPServer'' \<mapsto> ClassObj ''HelloWorldMCPServer''] ''HelloWorldMCPServer'' =
           Some (ClassObj ''HelloWorldMCPServer'')"
    by simp
  from C8_initializer_exports
    [of demo_modules "[''HelloWorldMCPServer'' \<mapsto> ClassObj ''HelloWorldMCPServer'']"
        "ClassObj ''HelloWorldMCPServer''"] m v
  show ?thesis
    by simp
qed

text \<open>
  C10. The import is the first statement and runs unconditionally: when the module
  \<^verbatim>\<open>hello_mcp_server\<close> is absent, running the initializer raises the import error and
  stops before \<^verbatim>\<open>HelloWorldMCPServer\<close>, \<^verbatim>\<open>__all__\<close> or \<^verbatim>\<open>__version__\<close> is bound.
\<close>

theorem C10_import_fails_without_module:
  "ms ''hello_mcp_server'' = None \<Longrightarrow>
   raised (server_init ms) = Some (ModuleNotFoundError ''hello_mcp_server'') \<and>
   bound (server_init ms) ''HelloWorldMCPServer'' = None \<and>
   bound (server_init ms) ''__all__'' = None \<and>
   bound (server_init ms) ''__version__'' = None"
  by (simp add: server_init_def import_from_def submodule_bound_def)

theorem C10_import_fails_without_module_witness:
  "raised (server_init Map.empty) = Some (ModuleNotFoundError ''hello_mcp_server'') \<and>
   bound (server_init Map.empty) ''__all__'' = None \<and>
   bound (server_init Map.empty) ''__version__'' = None"
  using C10_import_fails_without_module [of Map.empty]
  by simp

section \<open>Further properties\<close>

text \<open>
  X1. Whenever the child exits, with status 0 or any other, the launcher's exit status
  is the child's exit status, after exactly one call of \<^verbatim>\<open>subprocess.run\<close> with the
  constructed command.
\<close>

theorem status_propagated:
  "path_exists e (str_path (server_script e)) \<Longrightarrow> child e (cmd e) = Exited (ExitStatus w) \<Longrightarrow>
   exit_status (finish (main e)) = uint w \<and> run_calls (main e) = [cmd e]"
proof (cases "w = 0")
  case True
  assume "path_exists e (str_path (server_script e))" "child e (cmd e) = Exited (ExitStatus w)"
  with True show ?thesis by (simp add: main_exited_zero)
next
  case False
  assume "path_exists e (str_path (server_script e))" "child e (cmd e) = Exited (ExitStatus w)"
  moreover from False have "returncode (ExitStatus w) \<noteq> 0" by (simp add: uint_0_iff)
  ultimately show ?thesis by (simp add: main_exited_nonzero uint_byte_mod)
qed

theorem status_propagated_witness:
  "exit_status (finish (main (demo_env True (Exited (ExitStatus 0))))) = 0 \<and>
   exit_status (finish (main (demo_env True (Exited (ExitStatus 3))))) = 3"
proof -
  have p: "path_exists (demo_env True ev) (str_path (server_script (demo_env True ev)))" for ev
    by (simp add: demo_simps)
  have c: "child (demo_env True (Exited r)) (cmd (demo_env True (Exited r))) = Exited r" for r
    by (simp add: demo_simps)
  from status_propagated [OF p c, of 0] status_propagated [OF p c, of 3] show ?thesis
    by simp
qed

text \<open>
  X2. Wherever the launcher is installed, the string of the target path ends with
  \<^verbatim>\<open>server/hello_mcp_server.py\<close>.
\<close>

theorem target_name_fixed:
  "\<exists>pre. str_path (server_script e) = pre @ ''server/hello_mcp_server.py''"
proof -
  obtain pre where pre:
    "join_sep (tail (parent (Path (script_file e))) @ [''server'', ''hello_mcp_server.py'']) =
       pre @ ''server/hello_mcp_server.py''"
    using join_sep_fixed by blast
  show ?thesis
  proof (cases "anchor (parent (Path (script_file e))) = []")
    case True
    then have "str_path (server_script e) = pre @ ''server/hello_mcp_server.py''"
      by (simp add: server_script_parts str_path_def pre del: append.simps)
    then show ?thesis by blast
  next
    case False
    then have "str_path (server_script e) =
                 (anchor (parent (Path (script_file e))) @ pre) @ ''server/hello_mcp_server.py''"
      by (simp add: server_script_parts str_path_def pre del: append.simps)
    then show ?thesis by blast
  qed
qed

end
